theory Spec2Isabelle
  imports Complex_Main
begin

section \<open>Python values shared by the modules\<close>

text \<open>
  \<open>exn\<close> is what a call to the exchange can raise: the three classes of
  \<open>core/exceptions.py\<close> that \<open>place_limit_order\<close> documents, any other subclass of
  \<open>Exception\<close>, and the two exceptions that derive from \<open>BaseException\<close> only and
  reach a coroutine from outside, \<open>asyncio.CancelledError\<close> and \<open>KeyboardInterrupt\<close>.
  \<open>is_Exception\<close> is \<open>isinstance(e, Exception)\<close>.
\<close>

datatype exn =
    ExchangeError
  | InsufficientFundsError
  | InvalidOrderError
  | OtherException string
  | CancelledError
  | KeyboardInterrupt

fun is_Exception :: "exn \<Rightarrow> bool" where
  "is_Exception CancelledError = False"
| "is_Exception KeyboardInterrupt = False"
| "is_Exception e = True"

text \<open>
  Exceptions that the modelled code can raise by itself, and \<open>Propagated\<close> for an
  exception of the exchange that the code lets through. A function that can raise
  returns \<open>pyerror + 'a\<close>, with \<open>Inl\<close> for the raise.
\<close>

datatype pyerror =
    ZeroDivisionError
  | InvalidOperation
  | TypeError
  | AttributeError string
  | ValidationError "string list"
  | Propagated exn

section \<open>utils/rate\_limiter.py\<close>

text \<open>
  The repository holds two files that declare the class \<open>RateLimiter\<close>:
  \<^item> \<open>scripts/grid_trading_bot/grid_trading/utils/rate_limiter.py\<close> (the second
    version below), whose \<open>acquire\<close> refills once and then either sleeps or
    decrements. This is the only one of the two that Python can load.
  \<^item> \<open>grid_trading_bot/grid_trading/utils/rate_limiter.py\<close> (the first version
    below), whose \<open>acquire\<close> loops while \<open>tokens <= 0\<close>. As shipped, this file is
    not valid Python: inside the call of \<open>min\<close>, after \<open>self.max\<close>, lines 50 and 51
    hold a comment and a shell command (\<open>cat >> ... << 'EOL'\<close>), so importing the
    module raises SyntaxError and the class has no runs at all.

  \<open>max_requests\<close> is a Python int; \<open>time_window\<close>, \<open>tokens\<close> (after the first
  refill) and the clock are Python floats, modelled as exact reals.
  The lock and the sleep are kept as events of a trace, in program order.
\<close>

record RateLimiter =
  max_requests :: int
  time_window :: real
  tokens :: real
  last_update :: real

datatype event = LockAcquired | LockReleased | Sleep

text \<open>
  \<open>__init__\<close> of the second version: \<open>self.tokens = max_requests\<close>;
  \<open>now\<close> is the value of \<open>time.monotonic()\<close>.
\<close>

definition script_RateLimiter_init :: "int \<Rightarrow> real \<Rightarrow> real \<Rightarrow> RateLimiter" where
  "script_RateLimiter_init mr tw now =
     \<lparr> max_requests = mr, time_window = tw, tokens = of_int mr, last_update = now \<rparr>"

text \<open>
  The refill of the second version:
  \<^verbatim>\<open>
  now = time.monotonic()
  time_passed = now - self.last_update
  self.tokens = min(self.max_requests,
                    self.tokens + (time_passed * self.max_requests / self.time_window))
  self.last_update = now
  \<close>
  Python raises ZeroDivisionError on a division by \<open>0.0\<close>, before any field is
  assigned. Python's \<open>min(a, b)\<close> is \<open>b\<close> if \<open>b < a\<close> and \<open>a\<close> otherwise.
\<close>

definition refill :: "RateLimiter \<Rightarrow> real \<Rightarrow> pyerror + RateLimiter" where
  "refill rl now =
     (if time_window rl = 0 then Inl ZeroDivisionError
      else Inr (rl\<lparr> tokens := min (of_int (max_requests rl))
                               (tokens rl + ((now - last_update rl) * of_int (max_requests rl)
                                             / time_window rl)),
                    last_update := now \<rparr>))"

text \<open>
  Second version:
  \<^verbatim>\<open>
  async def acquire(self):
      async with self.lock:
          <refill>
          if self.tokens < 1:
              await asyncio.sleep(0.1)
          else:
              self.tokens -= 1
  \<close>
  \<open>async with\<close> releases the lock on every exit, also when the body raises.
\<close>

definition script_acquire :: "RateLimiter \<Rightarrow> real \<Rightarrow> event list \<times> (pyerror + RateLimiter)" where
  "script_acquire rl now =
     (case refill rl now of
        Inl e \<Rightarrow> ([LockAcquired, LockReleased], Inl e)
      | Inr rl' \<Rightarrow>
          if tokens rl' < 1 then ([LockAcquired, Sleep, LockReleased], Inr rl')
          else ([LockAcquired, LockReleased], Inr (rl'\<lparr> tokens := tokens rl' - 1 \<rparr>)))"

text \<open>
  The sequence of calls \<open>acquire(); acquire(); ...\<close> on one limiter of the second
  version, the \<open>k\<close>-th call made when the clock reads \<open>nows ! k\<close>: the states after
  each call, up to the first call that raises.
\<close>

fun script_run :: "RateLimiter \<Rightarrow> real list \<Rightarrow> RateLimiter list" where
  "script_run rl [] = []"
| "script_run rl (now # nows) =
     (case snd (script_acquire rl now) of
        Inl e \<Rightarrow> []
      | Inr rl' \<Rightarrow> rl' # script_run rl' nows)"

text \<open>
  First version, the text of the file with lines 50 and 51 taken out, which joins
  \<open>self.max\<close> and \<open>requests / self.time_window)\<close> into the refill expression of the
  second version:
  \<^verbatim>\<open>
  async def acquire(self) -> None:
      async with self.lock:
          while self.tokens <= 0:
              now = time.monotonic()
              <refill>
              if self.tokens <= 0:
                  await asyncio.sleep(0.1)
          self.tokens -= 1
  \<close>
  This is a reading of a file that does not parse, not a program that runs: nothing
  below is stated about the token counts it would compute. \<open>wait_loop\<close> and
  \<open>acquire\<close> are used for one thing only, the place of the sleep with respect to
  the lock, which the control structure of the text decides whatever the refill
  expression is.
  The loop reads the clock once per iteration. The readings are an input, given as a
  list: the loop may run forever, and the result is \<open>None\<close> when the readings run out
  while the loop is still waiting.
\<close>

fun wait_loop :: "RateLimiter \<Rightarrow> real list \<Rightarrow> (event list \<times> (pyerror + RateLimiter)) option" where
  "wait_loop rl [] = (if tokens rl \<le> 0 then None else Some ([], Inr rl))"
| "wait_loop rl (now # clock) =
     (if tokens rl \<le> 0 then
        (case refill rl now of
           Inl e \<Rightarrow> Some ([], Inl e)
         | Inr rl' \<Rightarrow>
             if tokens rl' \<le> 0
             then map_option (\<lambda>(tr, r). (Sleep # tr, r)) (wait_loop rl' clock)
             else wait_loop rl' clock)
      else Some ([], Inr rl))"

definition acquire :: "RateLimiter \<Rightarrow> real list \<Rightarrow> (event list \<times> (pyerror + RateLimiter)) option" where
  "acquire rl clock =
     map_option
       (\<lambda>(tr, r). (LockAcquired # tr @ [LockReleased],
                   case r of Inl e \<Rightarrow> Inl e
                           | Inr rl' \<Rightarrow> Inr (rl'\<lparr> tokens := tokens rl' - 1 \<rparr>)))
       (wait_loop rl clock)"

text \<open>
  An input of the worked examples: the limiter of \<open>exchanges/coinbase.py\<close>,
  \<open>RateLimiter(30, 1.0)\<close> created at time 0, after thirty calls of \<open>acquire\<close> at
  time 0 (\<open>script_run\<close> reaches it, see \<open>drained_limiter_reached\<close>).
\<close>

definition drained_limiter :: RateLimiter where
  "drained_limiter = \<lparr> max_requests = 30, time_window = 1, tokens = 0, last_update = 0 \<rparr>"

text \<open>
  Reading a trace: the number of sleeps that happen while the lock is held, and the
  number that happen while it is free. The flag says whether the lock is held at the
  start of the trace.
\<close>

fun sleeps_locked :: "bool \<Rightarrow> event list \<Rightarrow> nat" where
  "sleeps_locked held [] = 0"
| "sleeps_locked held (LockAcquired # tr) = sleeps_locked True tr"
| "sleeps_locked held (LockReleased # tr) = sleeps_locked False tr"
| "sleeps_locked held (Sleep # tr) = (if held then 1 else 0) + sleeps_locked held tr"

fun sleeps_unlocked :: "bool \<Rightarrow> event list \<Rightarrow> nat" where
  "sleeps_unlocked held [] = 0"
| "sleeps_unlocked held (LockAcquired # tr) = sleeps_unlocked True tr"
| "sleeps_unlocked held (LockReleased # tr) = sleeps_unlocked False tr"
| "sleeps_unlocked held (Sleep # tr) = (if held then 0 else 1) + sleeps_unlocked held tr"

section \<open>The exchange and the world the strategies act on\<close>

text \<open>
  \<open>core/exchange.py\<close> declares the abstract \<open>ExchangeInterface\<close>; the strategies hold a
  reference to one. A call through it is an effect: the model records every call, in
  order, and takes what the exchange answers as an input. The outcome of the \<open>k\<close>-th
  call of a run is \<open>outcomes k\<close>: the order id, or the exception raised.
\<close>

datatype side = Buy | Sell

record order_request =
  req_symbol :: string
  req_side :: side
  req_price :: real
  req_quantity :: real

datatype exchange_call =
    GetOrderBook string
  | PlaceLimitOrder order_request
  | CancelOrder string string
  | GetAccountBalance string
  | GetTicker string

datatype log_entry =
    InfoInitializing string
  | InfoPlaced side real string
  | ErrorPlacing side real exn

record world =
  calls :: "exchange_call list"
  logged :: "log_entry list"
  reads :: nat

definition world0 :: world where
  "world0 = \<lparr> calls = [], logged = [], reads = 0 \<rparr>"

fun placements :: "exchange_call list \<Rightarrow> order_request list" where
  "placements [] = []"
| "placements (PlaceLimitOrder r # cs) = r # placements cs"
| "placements (c # cs) = placements cs"

fun cancellations :: "exchange_call list \<Rightarrow> string list" where
  "cancellations [] = []"
| "cancellations (CancelOrder s oid # cs) = oid # cancellations cs"
| "cancellations (c # cs) = cancellations cs"

section \<open>Classes, abstract methods and attribute lookup\<close>

text \<open>
  A class statement, reduced to what instantiation and attribute lookup look at: the
  base class, the methods decorated with \<open>@abstractmethod\<close> and the methods defined
  without it.
  Python's \<open>ABCMeta\<close> keeps as abstract the names declared abstract in the class and
  the abstract names of the base that the class does not define; calling a class whose set
  of abstract names is not empty raises TypeError before \<open>__init__\<close> runs.
\<close>

datatype pyclass =
  PyClass (class_name: string) (base: "pyclass option")
          (abstract_decls: "string list") (concrete_defs: "string list")

fun abstractmethods :: "pyclass \<Rightarrow> string list" where
  "abstractmethods (PyClass n b decls defs) =
     decls @ (case b of
                None \<Rightarrow> []
              | Some c \<Rightarrow> filter (\<lambda>m. m \<notin> set defs \<and> m \<notin> set decls) (abstractmethods c))"

text \<open>
  \<open>class_attr c m\<close> is the class, along the chain of bases, whose body defines the
  name \<open>m\<close>, if there is one. \<open>has_attr c attrs m\<close> is whether \<open>self.m\<close> is found
  on an instance of \<open>c\<close> whose \<open>__init__\<close> has set the attributes \<open>attrs\<close>;
  when it is not, Python raises AttributeError.
\<close>

fun class_attr :: "pyclass \<Rightarrow> string \<Rightarrow> string option" where
  "class_attr (PyClass n b decls defs) m =
     (if m \<in> set defs \<or> m \<in> set decls then Some n
      else case b of None \<Rightarrow> None | Some c \<Rightarrow> class_attr c m)"

definition has_attr :: "pyclass \<Rightarrow> string list \<Rightarrow> string \<Rightarrow> bool" where
  "has_attr c attrs m = (m \<in> set attrs \<or> class_attr c m \<noteq> None)"

text \<open>\<open>core/strategy.py\<close> and \<open>strategies/grid.py\<close>, as class statements.\<close>

definition TradingStrategy_class :: pyclass where
  "TradingStrategy_class =
     PyClass ''TradingStrategy'' None
       [''initialize'', ''start'', ''stop'', ''on_price_update'', ''on_order_filled''] []"

definition GridTradingStrategy_class :: pyclass where
  "GridTradingStrategy_class =
     PyClass ''GridTradingStrategy'' (Some TradingStrategy_class)
       [] [''__init__'', ''initialize'', ''_place_grid_order'']"

text \<open>The attributes that \<open>GridTradingStrategy.__init__\<close> sets on the instance.\<close>

definition GridTradingStrategy_fields :: "string list" where
  "GridTradingStrategy_fields =
     [''exchange'', ''config'', ''price_update_interval'', ''active_orders'', ''is_running'']"

section \<open>database/models.py and strategies/grid.py\<close>

text \<open>
  The columns of \<open>GridConfig\<close> and \<open>Order\<close> are \<open>Numeric\<close>, \<open>Decimal\<close> in Python.
  A \<open>Decimal\<close> is modelled as a real number, and every arithmetic operation on
  Decimals rounds its exact result to the precision of the context (28 significant
  digits unless changed): that rounding is the parameter \<open>rnd\<close> of the functions
  below, never assumed to be the identity.
\<close>

record GridConfig =
  symbol :: string
  grid_size :: int
  upper_price :: real
  lower_price :: real
  quantity_per_order :: real

datatype order_status = Pending | Filled | Cancelled

record Order =
  exchange_order_id :: string
  order_side :: side
  order_price :: real
  order_quantity :: real
  status :: order_status

record GridTradingStrategy =
  config :: GridConfig
  price_update_interval :: real
  active_orders :: "string \<rightharpoonup> Order"
  is_running :: bool

text \<open>
  \<^verbatim>\<open>
  def __init__(self, exchange, config, price_update_interval=1.0):
      self.exchange = exchange
      self.config = config
      self.price_update_interval = price_update_interval
      self.active_orders = {}
      self.is_running = False
  \<close>
  The exchange is the world of the model. \<open>new_GridTradingStrategy\<close> is the call
  \<open>GridTradingStrategy(exchange=..., config=...)\<close>.
\<close>

definition GridTradingStrategy_init :: "GridConfig \<Rightarrow> real \<Rightarrow> GridTradingStrategy" where
  "GridTradingStrategy_init cfg interval =
     \<lparr> config = cfg, price_update_interval = interval,
       active_orders = Map.empty, is_running = False \<rparr>"

definition new_GridTradingStrategy ::
  "GridConfig \<Rightarrow> real \<Rightarrow> world \<Rightarrow> (pyerror + GridTradingStrategy) \<times> world" where
  "new_GridTradingStrategy cfg interval w =
     (if abstractmethods GridTradingStrategy_class \<noteq> [] then (Inl TypeError, w)
      else (Inr (GridTradingStrategy_init cfg interval), w))"

text \<open>
  \<^verbatim>\<open>
  async def _place_grid_order(self, side, price) -> None:
      try:
          order_id = await self.exchange.place_limit_order(
              self.config.symbol, side, price, self.config.quantity_per_order)
          logger.info(f"Placed {side} order at {price}: {order_id}")
      except Exception as e:
          logger.error(f"Error placing {side} order at {price}: {e}")
  \<close>
  \<open>except Exception\<close> catches what \<open>is_Exception\<close> holds of; any other exception
  leaves the method, after the call to the exchange and before any log entry.
\<close>

definition place_grid_order ::
  "(nat \<Rightarrow> exn + string) \<Rightarrow> GridConfig \<Rightarrow> side \<Rightarrow> real \<Rightarrow> world \<Rightarrow> (pyerror + unit) \<times> world" where
  "place_grid_order outcomes cfg sd price w =
     (let k = length (calls w);
          w1 = w\<lparr> calls := calls w @
                 [PlaceLimitOrder \<lparr> req_symbol = symbol cfg, req_side = sd,
                                    req_price = price,
                                    req_quantity = quantity_per_order cfg \<rparr>] \<rparr>
      in case outcomes k of
           Inr order_id \<Rightarrow> (Inr (), w1\<lparr> logged := logged w1 @ [InfoPlaced sd price order_id] \<rparr>)
         | Inl e \<Rightarrow>
             if is_Exception e
             then (Inr (), w1\<lparr> logged := logged w1 @ [ErrorPlacing sd price e] \<rparr>)
             else (Inl (Propagated e), w1))"

text \<open>
  One iteration of the loop of \<open>initialize\<close>:
  \<^verbatim>\<open>
  price = self.config.lower_price + (price_step * i)
  current_price = await self._get_current_price()
  if price < current_price:
      await self._place_grid_order("buy", price)
  else:
      await self._place_grid_order("sell", price)
  \<close>
  \<open>self._get_current_price\<close> is an attribute lookup on the instance. When the
  attribute is not found the iteration ends there with AttributeError. The branch in
  which it is found needs the value the call returns: \<open>prices k\<close> stands for the
  result of its \<open>k\<close>-th call.
\<close>

definition level_step ::
  "(real \<Rightarrow> real) \<Rightarrow> (nat \<Rightarrow> real) \<Rightarrow> (nat \<Rightarrow> exn + string) \<Rightarrow> GridConfig \<Rightarrow> real \<Rightarrow>
   world \<Rightarrow> nat \<Rightarrow> (pyerror + unit) \<times> world" where
  "level_step rnd prices outcomes cfg price_step w i =
     (let price = rnd (lower_price cfg + rnd (price_step * of_nat i))
      in if \<not> has_attr GridTradingStrategy_class GridTradingStrategy_fields
                 ''_get_current_price''
         then (Inl (AttributeError ''_get_current_price''), w)
         else
           (let current_price = prices (reads w);
                w1 = w\<lparr> reads := Suc (reads w) \<rparr>
            in if price < current_price
               then place_grid_order outcomes cfg Buy price w1
               else place_grid_order outcomes cfg Sell price w1))"

text \<open>The \<open>for\<close> loop: the iterations in order, up to the first one that raises.\<close>

fun place_levels ::
  "(real \<Rightarrow> real) \<Rightarrow> (nat \<Rightarrow> real) \<Rightarrow> (nat \<Rightarrow> exn + string) \<Rightarrow> GridConfig \<Rightarrow> real \<Rightarrow>
   nat list \<Rightarrow> world \<Rightarrow> (pyerror + unit) \<times> world" where
  "place_levels rnd prices outcomes cfg step [] w = (Inr (), w)"
| "place_levels rnd prices outcomes cfg step (i # rest) w =
     (case level_step rnd prices outcomes cfg step w i of
        (Inl e, w') \<Rightarrow> (Inl e, w')
      | (Inr u, w') \<Rightarrow> place_levels rnd prices outcomes cfg step rest w')"

text \<open>
  \<^verbatim>\<open>
  async def initialize(self) -> None:
      logger.info(f"Initializing grid for {self.config.symbol}")
      price_step = (self.config.upper_price - self.config.lower_price) / (self.config.grid_size - 1)
      for i in range(self.config.grid_size):
          <one iteration>
  \<close>
  A \<open>Decimal\<close> divided by zero raises \<open>decimal.DivisionByZero\<close>, a subclass of
  ZeroDivisionError, and \<open>0 / 0\<close> raises \<open>decimal.InvalidOperation\<close>.
  \<open>range(n)\<close> is empty for \<open>n \<le> 0\<close>.
\<close>

definition price_step :: "(real \<Rightarrow> real) \<Rightarrow> GridConfig \<Rightarrow> real" where
  "price_step rnd cfg =
     rnd (rnd (upper_price cfg - lower_price cfg) / of_int (grid_size cfg - 1))"

definition initialize ::
  "(real \<Rightarrow> real) \<Rightarrow> (nat \<Rightarrow> real) \<Rightarrow> (nat \<Rightarrow> exn + string) \<Rightarrow> GridConfig \<Rightarrow> world \<Rightarrow>
   (pyerror + unit) \<times> world" where
  "initialize rnd prices outcomes cfg w =
     (let w0 = w\<lparr> logged := logged w @ [InfoInitializing (symbol cfg)] \<rparr>
      in if grid_size cfg - 1 = 0
         then (if rnd (upper_price cfg - lower_price cfg) = 0
               then (Inl InvalidOperation, w0) else (Inl ZeroDivisionError, w0))
         else place_levels rnd prices outcomes cfg (price_step rnd cfg)
                [0 ..< nat (grid_size cfg)] w0)"

text \<open>
  A client that builds the strategy and sets up the grid, as \<open>main\<close> of
  \<open>examples/basic_usage.py\<close> does (lines 38 to 44):
  \<^verbatim>\<open>
  strategy = GridTradingStrategy(exchange=exchange, config=config.grid)
  ...
  await strategy.initialize()
  \<close>
  \<open>price_update_interval\<close> takes its default, \<open>1.0\<close>.
\<close>

definition create_and_initialize ::
  "(real \<Rightarrow> real) \<Rightarrow> (nat \<Rightarrow> real) \<Rightarrow> (nat \<Rightarrow> exn + string) \<Rightarrow> GridConfig \<Rightarrow> world \<Rightarrow>
   (pyerror + unit) \<times> world" where
  "create_and_initialize rnd prices outcomes cfg w =
     (case new_GridTradingStrategy cfg 1 w of
        (Inl e, w') \<Rightarrow> (Inl e, w')
      | (Inr self, w') \<Rightarrow> initialize rnd prices outcomes (config self) w')"

text \<open>
  The orders a run has asked the exchange for, with their sides, in order; \<open>None\<close>
  when the run raised.
\<close>

definition level_orders :: "(pyerror + unit) \<times> world \<Rightarrow> (side \<times> real) list option" where
  "level_orders r =
     (case fst r of
        Inl e \<Rightarrow> None
      | Inr u \<Rightarrow> Some (map (\<lambda>q. (req_side q, req_price q)) (placements (calls (snd r)))))"

text \<open>
  Inputs of the worked examples: the configuration with five levels from 100 to 200,
  a price that reads 140 at every call, an exchange that refuses its first order for
  lack of funds, and one whose first call is interrupted by the cancellation of the
  calling task.
\<close>

definition example_config :: GridConfig where
  "example_config = \<lparr> symbol = ''BTC-USD'', grid_size = 5, upper_price = 200,
                        lower_price = 100, quantity_per_order = 1 \<rparr>"

definition steady_price :: "nat \<Rightarrow> real" where
  "steady_price k = 140"



section \<open>core/strategy.py\<close>


section \<open>scripts: strategies/grid.py\<close>

text \<open>
  \<^verbatim>\<open>
  class GridStrategy:
      def __init__(self, exchange, config, check_interval=1.0):
          ...
          self.active_orders: Dict[str, str] = {}
          self.is_running = False

      async def stop(self):
          self.is_running = False
  \<close>
\<close>

record GridStrategy =
  gs_config :: GridConfig
  check_interval :: real
  gs_active_orders :: "string \<rightharpoonup> string"
  gs_is_running :: bool

definition stop :: "GridStrategy \<Rightarrow> world \<Rightarrow> GridStrategy \<times> world" where
  "stop self w = (self\<lparr> gs_is_running := False \<rparr>, w)"

text \<open>An input of the worked example: a running strategy with one open order.\<close>

definition running_strategy :: GridStrategy where
  "running_strategy =
     \<lparr> gs_config = example_config, check_interval = 1,
       gs_active_orders = [''o-100'' \<mapsto> ''buy''], gs_is_running = True \<rparr>"

section \<open>scripts: utils/validation.py, and config/loader.py\<close>

text \<open>
  Both files declare a pydantic model \<open>GridConfig\<close>. pydantic runs each validator on
  its field, collects the ValueErrors and raises one ValidationError when there is any.
  The fields of \<open>utils/validation.py\<close> are those of the record \<open>GridConfig\<close> above;
  its only validator:
  \<^verbatim>\<open>
  @validator('grid_size')
  def validate_grid_size(cls, v):
      if v < 2:
          raise ValueError("Grid size must be at least 2")
      return v
  \<close>
\<close>

definition validate_grid_size :: "int \<Rightarrow> string + int" where
  "validate_grid_size v = (if v < 2 then Inl ''Grid size must be at least 2'' else Inr v)"

definition GridConfig_validate :: "GridConfig \<Rightarrow> pyerror + GridConfig" where
  "GridConfig_validate c =
     (case validate_grid_size (grid_size c) of
        Inl msg \<Rightarrow> Inl (ValidationError [msg])
      | Inr v \<Rightarrow> Inr (c\<lparr> grid_size := v \<rparr>))"

text \<open>
  \<open>config/loader.py\<close>:
  \<^verbatim>\<open>
  class GridConfig(BaseModel):
      trading_pair: str
      grid_size: int
      grid_spread: float
      base_order_size: float
      check_interval: int = 60

      @validator('grid_size')        # if v < 2: raise ValueError(...)
      @validator('grid_spread')      # if not 0 < v < 1: raise ValueError(...)
  \<close>
\<close>

record LoaderGridConfig =
  trading_pair :: string
  loader_grid_size :: int
  grid_spread :: real
  base_order_size :: real
  loader_check_interval :: int

definition loader_validate_grid_size :: "int \<Rightarrow> string + int" where
  "loader_validate_grid_size v = (if v < 2 then Inl ''grid_size must be at least 2'' else Inr v)"

definition validate_grid_spread :: "real \<Rightarrow> string + real" where
  "validate_grid_spread v =
     (if \<not> (0 < v \<and> v < 1) then Inl ''grid_spread must be between 0 and 1'' else Inr v)"

definition LoaderGridConfig_validate :: "LoaderGridConfig \<Rightarrow> pyerror + LoaderGridConfig" where
  "LoaderGridConfig_validate c =
     (let errs = (case loader_validate_grid_size (loader_grid_size c) of
                    Inl msg \<Rightarrow> [msg] | Inr v \<Rightarrow> [])
               @ (case validate_grid_spread (grid_spread c) of
                    Inl msg \<Rightarrow> [msg] | Inr v \<Rightarrow> [])
      in if errs = [] then Inr c else Inl (ValidationError errs))"

text \<open>
  An input of the worked example: a configuration whose price bounds are inverted and
  whose quantity is negative.
\<close>

definition inverted_config :: GridConfig where
  "inverted_config = \<lparr> symbol = ''BTC-USD'', grid_size = 2, upper_price = 100,
                         lower_price = 200, quantity_per_order = - 1 \<rparr>"

section \<open>The rate limiter\<close>

lemma wait_loop_trace:
  "wait_loop rl clock = Some (tr, r) \<Longrightarrow> set tr \<subseteq> {Sleep}"
proof (induction clock arbitrary: rl tr r)
  case Nil
  then show ?case by (simp split: if_splits)
next
  case (Cons now clock)
  show ?case
  proof (cases "tokens rl \<le> 0")
    case False
    with Cons.prems show ?thesis by simp
  next
    case True
    show ?thesis
    proof (cases "refill rl now")
      case (Inl e)
      with True Cons.prems show ?thesis by simp
    next
      case (Inr rl')
      with True Cons.prems obtain tr' where
        w: "wait_loop rl' clock = Some (tr', r)" and t: "tr = tr' \<or> tr = Sleep # tr'"
        by (auto split: if_splits)
      from Cons.IH [OF w] t show ?thesis by auto
    qed
  qed
qed

lemma sleeps_in_section:
  "set tr \<subseteq> {Sleep} \<Longrightarrow>
   sleeps_unlocked True (tr @ [LockReleased]) = 0 \<and>
   sleeps_locked True (tr @ [LockReleased]) = length tr"
  by (induction tr) auto




text \<open>The drained limiter is the state after thirty calls at time 0.\<close>

lemma drained_limiter_reached:
  "last (script_run (script_RateLimiter_init 30 1 0) (replicate 30 0)) = drained_limiter"
  by (simp add: numeral_eq_Suc script_acquire_def refill_def script_RateLimiter_init_def
      drained_limiter_def)

text \<open>
  Claim C2 fails on the second version (\<open>scripts/.../rate_limiter.py\<close>): a limiter
  \<open>RateLimiter(1, 1.0)\<close> created at time 0 gives its token to a first \<open>acquire\<close>;
  a second \<open>acquire\<close> 0.05 s later finds 0.05 tokens, sleeps once and returns with the
  count unchanged: no token was consumed.
\<close>

theorem script_acquire_returns_without_token:
  "script_acquire (script_RateLimiter_init 1 1 0) 0 =
     ([LockAcquired, LockReleased],
      Inr \<lparr> max_requests = 1, time_window = 1, tokens = 0, last_update = 0 \<rparr>)
   \<and> script_acquire \<lparr> max_requests = 1, time_window = 1, tokens = 0, last_update = 0 \<rparr> (1/20) =
     ([LockAcquired, Sleep, LockReleased],
      Inr \<lparr> max_requests = 1, time_window = 1, tokens = 1/20, last_update = 1/20 \<rparr>)"
  by (simp add: script_acquire_def script_RateLimiter_init_def refill_def)



text \<open>
  Claim C7, as stated, fails: in both versions \<open>asyncio.sleep(0.1)\<close> is inside
  \<open>async with self.lock\<close>. On the drained limiter the first version, with the clock
  at 0 and then at 0.01, and the second version, with the clock at 0.01, each sleep once
  between taking and releasing the lock.
\<close>

theorem lock_held_across_sleep_counterexample:
  "acquire drained_limiter [0, 1/100] =
     Some ([LockAcquired, Sleep, LockReleased],
           Inr \<lparr> max_requests = 30, time_window = 1, tokens = - (7/10), last_update = 1/100 \<rparr>)
   \<and> sleeps_locked False [LockAcquired, Sleep, LockReleased] = 1
   \<and> sleeps_locked False (fst (script_acquire drained_limiter (1/100))) = 1"
  by (simp add: acquire_def script_acquire_def drained_limiter_def refill_def)

text \<open>
  Claim C7, amended. In both versions of \<open>acquire\<close> the lock is held for the whole
  body, every wait included: no sleep happens while the lock is free, and between
  taking the lock and releasing it the call does nothing but sleep, so a caller that
  finds no token keeps the lock while it waits.
\<close>

theorem acquire_sleeps_under_lock:
  "sleeps_unlocked False (fst (script_acquire rl now)) = 0 \<and>
   (\<forall>tr r. acquire rl clock = Some (tr, r) \<longrightarrow>
      sleeps_unlocked False tr = 0 \<and> sleeps_locked False tr + 2 = length tr)"
proof (rule conjI)
  show "sleeps_unlocked False (fst (script_acquire rl now)) = 0"
    by (simp add: script_acquire_def split: sum.split)
next
  show "\<forall>tr r. acquire rl clock = Some (tr, r) \<longrightarrow>
      sleeps_unlocked False tr = 0 \<and> sleeps_locked False tr + 2 = length tr"
  proof (intro allI impI)
    fix tr r
    assume a: "acquire rl clock = Some (tr, r)"
    then obtain tr0 r0 where w: "wait_loop rl clock = Some (tr0, r0)"
      and tr: "tr = LockAcquired # tr0 @ [LockReleased]"
      by (auto simp: acquire_def)
    from wait_loop_trace [OF w] have "set tr0 \<subseteq> {Sleep}" .
    from sleeps_in_section [OF this] show
      "sleeps_unlocked False tr = 0 \<and> sleeps_locked False tr + 2 = length tr"
      by (simp add: tr)
  qed
qed


theorem acquire_sleeps_under_lock_witness:
  "acquire drained_limiter [0, 0, 1/100] =
     Some ([LockAcquired, Sleep, Sleep, LockReleased],
           Inr \<lparr> max_requests = 30, time_window = 1, tokens = - (7/10), last_update = 1/100 \<rparr>)
   \<and> sleeps_unlocked False [LockAcquired, Sleep, Sleep, LockReleased] = 0
   \<and> sleeps_locked False [LockAcquired, Sleep, Sleep, LockReleased] + 2 = 4"
proof -
  have run: "acquire drained_limiter [0, 0, 1/100] =
     Some ([LockAcquired, Sleep, Sleep, LockReleased],
           Inr \<lparr> max_requests = 30, time_window = 1, tokens = - (7/10), last_update = 1/100 \<rparr>)"
    by (simp add: acquire_def drained_limiter_def refill_def)
  from acquire_sleeps_under_lock [of drained_limiter 0 "[0, 0, 1/100]", THEN conjunct2,
      rule_format, OF run]
  have "sleeps_unlocked False [LockAcquired, Sleep, Sleep, LockReleased] = 0 \<and>
        sleeps_locked False [LockAcquired, Sleep, Sleep, LockReleased] + 2 =
          length [LockAcquired, Sleep, Sleep, LockReleased]" .
  with run show ?thesis by simp
qed

section \<open>What the strategy class can do\<close>

text \<open>
  No class defines \<open>_get_current_price\<close> and \<open>__init__\<close> sets no attribute of that
  name, so the lookup in the loop of \<open>initialize\<close> fails.
\<close>

lemma no_get_current_price:
  "\<not> has_attr GridTradingStrategy_class GridTradingStrategy_fields ''_get_current_price''"
  by (simp add: has_attr_def GridTradingStrategy_class_def TradingStrategy_class_def
      GridTradingStrategy_fields_def)

lemma level_step_raises:
  "level_step rnd prices outcomes cfg step w i = (Inl (AttributeError ''_get_current_price''), w)"
  by (simp add: level_step_def no_get_current_price Let_def)

text \<open>
  For every grid of at least two levels, \<open>initialize\<close> writes its first log line and
  raises AttributeError in the first iteration, before any call to the exchange.
\<close>

lemma initialize_raises:
  assumes "2 \<le> grid_size cfg"
  shows "initialize rnd prices outcomes cfg w =
           (Inl (AttributeError ''_get_current_price''),
            w\<lparr> logged := logged w @ [InfoInitializing (symbol cfg)] \<rparr>)"
proof -
  from assms obtain n where n: "nat (grid_size cfg) = Suc n"
    by (cases "nat (grid_size cfg)") auto
  have "[0 ..< nat (grid_size cfg)] = 0 # [1 ..< Suc n]"
    unfolding n by (simp add: upt_conv_Cons)
  with assms show ?thesis
    by (simp add: initialize_def Let_def level_step_raises)
qed

lemma create_raises:
  "create_and_initialize rnd prices outcomes cfg w = (Inl TypeError, w)"
  by (simp add: create_and_initialize_def new_GridTradingStrategy_def
      GridTradingStrategy_class_def TradingStrategy_class_def)

section \<open>Ladder construction\<close>

text \<open>
  Claim C4 fails on the code. For \<open>grid_size = 5\<close>, \<open>lower = 100\<close>, \<open>upper = 200\<close>
  the claim promises five levels at \<open>[100, 125, 150, 175, 200]\<close>. Building the
  strategy for this configuration raises TypeError (the class is abstract) and nothing
  is asked of the exchange; and the body of \<open>initialize\<close>, on the state that
  \<open>__init__\<close> sets, raises AttributeError at the first \<open>self._get_current_price()\<close>,
  again with no order placed: no level is produced, whatever the rounding of the
  context, the prices and the answers of the exchange.
\<close>

theorem initialize_places_no_level:
  "create_and_initialize rnd prices outcomes example_config world0 = (Inl TypeError, world0)
   \<and> fst (initialize rnd prices outcomes
             (config (GridTradingStrategy_init example_config 1)) world0)
       = Inl (AttributeError ''_get_current_price'')
   \<and> placements (calls (snd (initialize rnd prices outcomes
             (config (GridTradingStrategy_init example_config 1)) world0))) = []"
proof -
  have c: "config (GridTradingStrategy_init example_config 1) = example_config"
    by (simp add: GridTradingStrategy_init_def)
  have g: "2 \<le> grid_size example_config" by (simp add: example_config_def)
  show ?thesis
    unfolding c by (simp add: create_raises initialize_raises [OF g] world0_def)
qed

section \<open>Classification of the levels\<close>

text \<open>
  Claim C5 fails on the code. With the reference price 140 and the levels of the
  example the claim promises buy, buy, sell, sell, sell. No level is classified:
  building the strategy raises TypeError, and the body of \<open>initialize\<close> raises
  AttributeError at the price read of the first iteration, which comes before the
  comparison \<open>price < current_price\<close>.
\<close>

theorem initialize_classifies_no_level:
  "level_orders (create_and_initialize rnd steady_price outcomes example_config world0) = None
   \<and> level_orders (initialize rnd steady_price outcomes example_config world0) = None
   \<and> class_attr GridTradingStrategy_class ''_get_current_price'' = None
   \<and> ''_get_current_price'' \<notin> set GridTradingStrategy_fields"
proof -
  have g: "2 \<le> grid_size example_config" by (simp add: example_config_def)
  show ?thesis
    by (simp add: level_orders_def create_raises initialize_raises [OF g]
        GridTradingStrategy_class_def TradingStrategy_class_def GridTradingStrategy_fields_def)
qed

section \<open>Failures of order placement\<close>




section \<open>Fill events\<close>



section \<open>Stopping\<close>

text \<open>
  Claim C6, as stated, fails: \<open>stop\<close> of the running strategy of the example, which
  holds one open order, asks the exchange for no cancellation.
\<close>

theorem stop_cancels_nothing_counterexample:
  "gs_active_orders running_strategy ''o-100'' = Some ''buy''
   \<and> gs_is_running running_strategy
   \<and> cancellations (calls (snd (stop running_strategy world0))) = []"
  by (simp add: stop_def running_strategy_def world0_def)

text \<open>
  Claim C6, amended. \<open>stop()\<close> only sets \<open>is_running\<close> to \<open>False\<close>: it makes no call
  to the exchange, so no cancel request, and it leaves \<open>active_orders\<close> as it was. It is
  idempotent: a second \<open>stop()\<close> changes nothing and adds no cancel attempt either.
\<close>

theorem stop_only_clears_flag:
  "calls (snd (stop self w)) = calls w
   \<and> \<not> gs_is_running (fst (stop self w))
   \<and> gs_active_orders (fst (stop self w)) = gs_active_orders self
   \<and> stop (fst (stop self w)) (snd (stop self w)) = stop self w
   \<and> cancellations (calls (snd (stop (fst (stop self w)) (snd (stop self w)))))
       = cancellations (calls w)"
  by (simp add: stop_def)

section \<open>Validation of the configuration\<close>

text \<open>
  Claim C9, as stated, fails: the configuration of the example, with
  \<open>upper_price = 100 < lower_price = 200\<close> and \<open>quantity_per_order = -1\<close>, is accepted.
\<close>

theorem GridConfig_validate_counterexample:
  "GridConfig_validate inverted_config = Inr inverted_config
   \<and> upper_price inverted_config < lower_price inverted_config
   \<and> quantity_per_order inverted_config < 0"
  by (simp add: GridConfig_validate_def validate_grid_size_def inverted_config_def)

text \<open>
  Claim C9, amended. Validation checks \<open>grid_size\<close> only: the model of
  \<open>utils/validation.py\<close> rejects a configuration exactly when \<open>grid_size < 2\<close> and
  accepts it unchanged otherwise, whatever its price bounds and its quantity; the
  model of \<open>config/loader.py\<close>, which has no price bounds and no quantity, accepts
  exactly when \<open>grid_size \<ge> 2\<close> and \<open>0 < grid_spread < 1\<close>.
\<close>

theorem GridConfig_validate_checks_grid_size_only:
  "GridConfig_validate c =
     (if grid_size c < 2 then Inl (ValidationError [''Grid size must be at least 2''])
      else Inr c)
   \<and> (LoaderGridConfig_validate d = Inr d) =
       (2 \<le> loader_grid_size d \<and> 0 < grid_spread d \<and> grid_spread d < 1)
   \<and> isl (LoaderGridConfig_validate d) =
       (loader_grid_size d < 2 \<or> grid_spread d \<le> 0 \<or> 1 \<le> grid_spread d)"
  by (auto simp: GridConfig_validate_def validate_grid_size_def LoaderGridConfig_validate_def
      loader_validate_grid_size_def validate_grid_spread_def Let_def)

section \<open>Instantiating the strategy\<close>

text \<open>
  Claim C10. Of the five abstract methods of \<open>TradingStrategy\<close>,
  \<open>GridTradingStrategy\<close> defines \<open>initialize\<close> only; \<open>start\<close>, \<open>stop\<close>,
  \<open>on_price_update\<close> and \<open>on_order_filled\<close> stay abstract. Every call
  \<open>GridTradingStrategy(...)\<close> therefore raises TypeError, whatever its arguments, and
  no call to the exchange has been made by then.
\<close>

theorem GridTradingStrategy_not_instantiable:
  "filter (\<lambda>m. m \<in> set (concrete_defs GridTradingStrategy_class))
          (abstractmethods TradingStrategy_class) = [''initialize'']
   \<and> abstractmethods GridTradingStrategy_class =
       [''start'', ''stop'', ''on_price_update'', ''on_order_filled'']
   \<and> new_GridTradingStrategy cfg interval w = (Inl TypeError, w)"
  by (simp add: new_GridTradingStrategy_def GridTradingStrategy_class_def
      TradingStrategy_class_def)


end
